theory Spec2Isabelle
  imports Complex_Main "HOL-Library.Word"
begin

section \<open>JavaScript strings and values\<close>

text \<open>
  A JavaScript string is a sequence of 16-bit code units; a \<open>Buffer\<close> is a sequence of
  bytes. String literals of the source are written with \<open>lit\<close>.
\<close>

type_synonym byte = "8 word"
type_synonym jschar = "16 word"
type_synonym jsstring = "jschar list"

definition lit :: "string \<Rightarrow> jsstring" where
  "lit s = map of_char s"

definition LF :: jschar where
  "LF = 0x0A"

text \<open>\<open>s.startsWith(p)\<close>, and \<open>s.slice(n)\<close> is \<open>drop n s\<close>, \<open>s.substring(0, n)\<close> is \<open>take n s\<close>.\<close>

definition startsWith :: "jsstring \<Rightarrow> jsstring \<Rightarrow> bool" where
  "startsWith s p = (take (length p) s = p)"

text \<open>\<open>s.trim()\<close> removes the white space and line terminators of ECMAScript at both ends.\<close>

definition is_js_space :: "jschar \<Rightarrow> bool" where
  "is_js_space c \<longleftrightarrow>
     c \<in> {0x09, 0x0A, 0x0B, 0x0C, 0x0D, 0x20, 0xA0, 0x1680, 0x2028, 0x2029, 0x202F, 0x205F,
          0x3000, 0xFEFF} \<or> (0x2000 \<le> c \<and> c \<le> 0x200A)"

definition js_trim :: "jsstring \<Rightarrow> jsstring" where
  "js_trim s = rev (dropWhile is_js_space (rev (dropWhile is_js_space s)))"

text \<open>\<open>s.split('\n')\<close>: the segments between line feeds; never an empty array.\<close>

fun split_nl :: "jsstring \<Rightarrow> jsstring list" where
  "split_nl [] = [[]]"
| "split_nl (c # cs) =
     (if c = LF then [] # split_nl cs
      else (case split_nl cs of [] \<Rightarrow> [[c]] | l # ls \<Rightarrow> (c # l) # ls))"

text \<open>\<open>lines.pop() || ''\<close>: the last element, or the empty string when there is none.\<close>

definition pop_or_empty :: "jsstring list \<Rightarrow> jsstring" where
  "pop_or_empty ls = (if ls = [] then [] else last ls)"

text \<open>The template literal \<open>`${n}`\<close> of a non-negative integer: its decimal digits.\<close>

fun decimal :: "nat \<Rightarrow> jsstring" where
  "decimal n = (if n < 10 then [of_nat (48 + n)] else decimal (n div 10) @ [of_nat (48 + n mod 10)])"

text \<open>
  The values \<open>JSON.parse\<close> returns. A number is carried as the rational it denotes (every
  finite double is one; \<open>-0\<close> is carried as \<open>0\<close>, both are falsy and both serialise as
  \<open>0\<close>); the program only tests numbers for truthiness. The keys of an object are distinct
  and kept in insertion order.
\<close>

datatype jsnumber = Finite rat | PosInfinity | NegInfinity | NaN

datatype json =
    JNull
  | JBool bool
  | JNum jsnumber
  | JStr jsstring
  | JArr "json list"
  | JObj "(jsstring \<times> json) list"

text \<open>Truthiness, as \<open>||\<close> and \<open>!\<close> test it.\<close>

fun truthy :: "json \<Rightarrow> bool" where
  "truthy JNull = False"
| "truthy (JBool b) = b"
| "truthy (JNum n) = (n \<noteq> Finite 0 \<and> n \<noteq> NaN)"
| "truthy (JStr s) = (s \<noteq> [])"
| "truthy (JArr _) = True"
| "truthy (JObj _) = True"

text \<open>A variable that holds \<open>null\<close> or a string is falsy when it is \<open>null\<close> or \<open>''\<close>.\<close>

fun falsy :: "jsstring option \<Rightarrow> bool" where
  "falsy None = True"
| "falsy (Some s) = (s = [])"

text \<open>
  The exceptions thrown outside \<open>JSON.parse\<close> are TypeErrors. \<open>v.id\<close>: reading a property
  of \<open>null\<close> throws; an object has the property or not (\<open>undefined\<close> is \<open>None\<close>); the
  other values have no property \<open>id\<close>.
\<close>

datatype error = TypeError

fun get_id :: "json \<Rightarrow> error + json option" where
  "get_id JNull = Inl TypeError"
| "get_id (JObj kvs) = Inr (map_of kvs (lit ''id''))"
| "get_id _ = Inr None"

section \<open>The library functions the proxy calls\<close>

text \<open>
  The functions of Node.js the proxy calls are parameters of the model:
  \<^item> \<open>JSON_parse s\<close> is the value of \<open>JSON.parse(s)\<close>, or the message of the SyntaxError;
  \<^item> \<open>JSON_stringify v\<close> is \<open>JSON.stringify(v)\<close>;
  \<^item> \<open>URL_sessionId d b\<close> is \<open>new URL(d, b).searchParams.get('sessionId')\<close>: the
    constructor throws on an invalid URL, and \<open>get\<close> returns \<open>null\<close> or a string;
  \<^item> \<open>toString b\<close> is \<open>b.toString()\<close> of a Buffer, its UTF-8 decoding;
  \<^item> \<open>byteLength s\<close> is \<open>Buffer.byteLength(s)\<close>.
\<close>

datatype url_lookup = InvalidURL | Param "jsstring option"

record node =
  JSON_parse :: "jsstring \<Rightarrow> jsstring + json"
  JSON_stringify :: "json \<Rightarrow> jsstring"
  URL_sessionId :: "jsstring \<Rightarrow> jsstring \<Rightarrow> url_lookup"
  toString :: "byte list \<Rightarrow> jsstring"
  byteLength :: "jsstring \<Rightarrow> nat"

text \<open>\<open>sseUrl\<close>, the parsed SSE URL; \<open>port\<close> is \<open>''\<close> when the URL names none.\<close>

record sse_url =
  protocol :: jsstring
  hostname :: jsstring
  port :: jsstring
  pathname :: jsstring

text \<open>\<open>sseUrl.port || (sseUrl.protocol === 'https:' ? 443 : 80)\<close>, as it prints.\<close>

definition options_port :: "sse_url \<Rightarrow> jsstring" where
  "options_port u =
     (if port u \<noteq> [] then port u
      else if protocol u = lit ''https:'' then lit ''443'' else lit ''80'')"

section \<open>The state of the process\<close>

record http_request =
  req_hostname :: jsstring
  req_port :: jsstring
  req_path :: jsstring
  req_method :: jsstring
  content_type :: jsstring
  content_length :: nat
  req_body :: jsstring

text \<open>A promise is pending or settled; what an \<open>await\<close> waits for is settled already or is
  the response to the request with the given number.\<close>

datatype outcome = Fulfilled | Rejected jsstring

datatype awaited = Settled outcome | InFlight nat

datatype promise = Pending | Done outcome

text \<open>What the SSE side of the process has seen, in order: each \<open>data: \<close> line with the
  event type pending when it was read, the end of the stream, a transport error. It is a
  history of the run, not a variable of the program.\<close>

datatype observation =
    Frame "jsstring option" jsstring
  | StreamEnd
  | TransportError

record proxy =
  sessionId :: "jsstring option"
  sseConnection :: bool
  buffer :: jsstring
  currentEvent :: "jsstring option"
  connecting :: promise
  suspended :: "(jsstring \<times> awaited) list"
  requests :: "http_request list"
  stdout :: "jsstring list"
  stderr :: "jsstring list list"
  exitCode :: "int option"
  journal :: "observation list"

text \<open>\<open>console.error(...)\<close> with the given string arguments (the constant object
  \<open>{ stream: 'stderr' }\<close> that every call also prints is left out), and
  \<open>process.stdout.write(s)\<close>.\<close>

definition console_error :: "jsstring list \<Rightarrow> proxy \<Rightarrow> proxy" where
  "console_error args st = st\<lparr>stderr := stderr st @ [args]\<rparr>"

definition stdout_write :: "jsstring \<Rightarrow> proxy \<Rightarrow> proxy" where
  "stdout_write s st = st\<lparr>stdout := stdout st @ [s]\<rparr>"

definition observe :: "observation \<Rightarrow> proxy \<Rightarrow> proxy" where
  "observe ob st = st\<lparr>journal := journal st @ [ob]\<rparr>"

section \<open>sendMessage\<close>

text \<open>
  \<open>http.request\<close> throws at once when the path of the request has a character outside
  U+0021 to U+00FF (\<open>Request path contains unescaped characters\<close>).
\<close>

fun unescaped :: "jsstring \<Rightarrow> bool" where
  "unescaped [] = False"
| "unescaped (c # cs) = (c < 0x21 \<or> 0xFF < c \<or> unescaped cs)"

text \<open>
  The executor of the promise runs at once: without a session id it rejects and issues no
  request; otherwise it serialises the message and builds the options of the POST. When
  \<open>http.request\<close> throws on them the promise is rejected with that error and no request
  is issued; otherwise the body is written, the request is ended, and the promise stays
  pending until the response ends or the request fails.
\<close>

definition sendMessage :: "node \<Rightarrow> sse_url \<Rightarrow> json \<Rightarrow> proxy \<Rightarrow> awaited \<times> proxy" where
  "sendMessage env u message st =
     (case sessionId st of
        None \<Rightarrow> (Settled (Rejected (lit ''No active session'')), st)
      | Some sid \<Rightarrow>
          if sid = [] then (Settled (Rejected (lit ''No active session'')), st)
          else
            (let postData = JSON_stringify env message;
                 options = \<lparr>req_hostname = hostname u,
                            req_port = options_port u,
                            req_path = pathname u @ lit ''?sessionId='' @ sid,
                            req_method = lit ''POST'',
                            content_type = lit ''application/json'',
                            content_length = byteLength env postData,
                            req_body = postData\<rparr>
             in if unescaped (req_path options)
                then (Settled (Rejected (lit ''Request path contains unescaped characters'')), st)
                else (InFlight (length (requests st)), st\<lparr>requests := requests st @ [options]\<rparr>)))"

text \<open>The response ended with this status code and body (lines 55 to 62), or the request
  failed with this error message (lines 65 to 67).\<close>

definition post_end :: "nat \<Rightarrow> jsstring \<Rightarrow> outcome" where
  "post_end statusCode data =
     (if 200 \<le> statusCode \<and> statusCode < 300 then Fulfilled
      else Rejected (lit ''HTTP '' @ decimal statusCode @ lit '': '' @ data))"

definition post_error :: "jsstring \<Rightarrow> outcome" where
  "post_error msg = Rejected msg"

section \<open>The SSE stream: connectSSEStream\<close>

text \<open>\<open>resolve()\<close> and \<open>reject(error)\<close> of the promise \<open>connectSSEStream\<close> returns: a
  settled promise stays as it is. When the promise is rejected, \<open>initialize\<close> logs the
  failure and exits with status 1.\<close>

definition resolve :: "proxy \<Rightarrow> proxy" where
  "resolve st = (if connecting st = Pending then st\<lparr>connecting := Done Fulfilled\<rparr> else st)"

definition reject :: "jsstring \<Rightarrow> proxy \<Rightarrow> proxy" where
  "reject msg st =
     (if connecting st = Pending
      then (console_error [lit ''Failed to initialize:'', msg] (st\<lparr>connecting := Done (Rejected msg)\<rparr>))
             \<lparr>exitCode := Some 1\<rparr>
      else st)"

text \<open>The template literal \<open>`Session established: ${sessionId}`\<close>.\<close>

definition show_session :: "jsstring option \<Rightarrow> jsstring" where
  "show_session sid = (case sid of None \<Rightarrow> lit ''null'' | Some s \<Rightarrow> s)"

text \<open>
  The body of the loop over the complete lines (lines 110 to 144). The exception of
  \<open>new URL\<close> is not caught anywhere: it leaves the handler.
\<close>

definition process_line :: "node \<Rightarrow> sse_url \<Rightarrow> jsstring \<Rightarrow> proxy \<Rightarrow> error + proxy" where
  "process_line env u line st =
     (if startsWith line (lit ''event: '') then
        Inr (st\<lparr>currentEvent := Some (js_trim (drop 7 line))\<rparr>)
      else if startsWith line (lit ''data: '') then
        (let data = drop 6 line;
             st1 = observe (Frame (currentEvent st) data) st
         in if currentEvent st1 = Some (lit ''endpoint'') then
              (case URL_sessionId env data (lit ''http://'' @ hostname u @ lit '':'' @ options_port u) of
                 InvalidURL \<Rightarrow> Inl TypeError
               | Param sid \<Rightarrow>
                   Inr ((resolve
                          (console_error [lit ''Session established: '' @ show_session sid]
                            (st1\<lparr>sessionId := sid\<rparr>)))
                        \<lparr>currentEvent := None\<rparr>))
            else if currentEvent st1 = Some (lit ''message'') \<or> falsy (currentEvent st1) then
              (if data = lit ''[DONE]'' then Inr (st1\<lparr>currentEvent := None\<rparr>)
               else
                 (case JSON_parse env data of
                    Inr message \<Rightarrow>
                      Inr ((stdout_write (JSON_stringify env message @ [LF]) st1)
                           \<lparr>currentEvent := None\<rparr>)
                  | Inl e \<Rightarrow>
                      Inr ((console_error [lit ''Failed to parse SSE message:'', take 50 data] st1)
                           \<lparr>currentEvent := None\<rparr>)))
            else Inr (st1\<lparr>currentEvent := None\<rparr>))
      else if line = [] then Inr (st\<lparr>currentEvent := None\<rparr>)
      else Inr st)"

fun process_lines :: "node \<Rightarrow> sse_url \<Rightarrow> jsstring list \<Rightarrow> proxy \<Rightarrow> error + proxy" where
  "process_lines env u [] st = Inr st"
| "process_lines env u (line # lines) st =
     (case process_line env u line st of
        Inl e \<Rightarrow> Inl e
      | Inr st' \<Rightarrow> process_lines env u lines st')"

text \<open>The \<open>data\<close> handler on a chunk that is already a string (lines 105 to 145), and on
  the Buffer the stream delivers.\<close>

definition on_chunk :: "node \<Rightarrow> sse_url \<Rightarrow> jsstring \<Rightarrow> proxy \<Rightarrow> error + proxy" where
  "on_chunk env u s st =
     (let lines = split_nl (buffer st @ s)
      in process_lines env u (butlast lines) (st\<lparr>buffer := pop_or_empty lines\<rparr>))"

definition on_data :: "node \<Rightarrow> sse_url \<Rightarrow> byte list \<Rightarrow> proxy \<Rightarrow> error + proxy" where
  "on_data env u chunk st = on_chunk env u (toString env chunk) st"

text \<open>The response to the GET arrived (lines 92 to 102): another status than 200 rejects;
  otherwise the stream is open and the parser starts with an empty buffer.\<close>

definition on_response :: "nat \<Rightarrow> proxy \<Rightarrow> proxy" where
  "on_response statusCode st =
     (if statusCode \<noteq> 200
      then reject (lit ''Failed to connect to SSE: HTTP '' @ decimal statusCode) st
      else (console_error [lit ''Connected to SSE endpoint''] st)
             \<lparr>sseConnection := True, buffer := [], currentEvent := None\<rparr>)"

text \<open>The \<open>end\<close> handler of the response and the \<open>error\<close> handler of the request.\<close>

definition on_end :: "proxy \<Rightarrow> proxy" where
  "on_end st =
     observe StreamEnd
       ((console_error [lit ''SSE connection closed''] st)
          \<lparr>sseConnection := False, sessionId := None\<rparr>)"

definition on_error :: "jsstring \<Rightarrow> proxy \<Rightarrow> proxy" where
  "on_error msg st =
     reject msg
       (observe TransportError
          ((console_error [lit ''SSE connection error:'', msg] st)
             \<lparr>sseConnection := False, sessionId := None\<rparr>))"

section \<open>The dispatcher of the local input lines\<close>

text \<open>The error response of lines 196 to 203: \<open>parsedMessage.id || null\<close> throws when the
  parsed message is \<open>null\<close>.\<close>

definition id_or_null :: "json option \<Rightarrow> json" where
  "id_or_null v = (case v of None \<Rightarrow> JNull | Some i \<Rightarrow> if truthy i then i else JNull)"

definition errorResponse :: "json \<Rightarrow> jsstring \<Rightarrow> error + json" where
  "errorResponse parsedMessage msg =
     (case get_id parsedMessage of
        Inl e \<Rightarrow> Inl e
      | Inr i \<Rightarrow>
          Inr (JObj [(lit ''jsonrpc'', JStr (lit ''2.0'')),
                     (lit ''id'', id_or_null i),
                     (lit ''error'', JObj [(lit ''code'', JNum (Finite (- 32603))),
                                           (lit ''message'', JStr msg)])]))"

text \<open>The \<open>catch\<close> block (lines 190 to 208) for an error with this message: the inner
  \<open>try\<close> swallows whatever is thrown while the response is built.\<close>

definition line_catch :: "node \<Rightarrow> jsstring \<Rightarrow> jsstring \<Rightarrow> proxy \<Rightarrow> proxy" where
  "line_catch env line msg st =
     (let st1 = console_error [lit ''Error processing message:'', msg] st
      in case JSON_parse env line of
           Inl e \<Rightarrow> st1
         | Inr parsedMessage \<Rightarrow>
             (case errorResponse parsedMessage msg of
                Inl e \<Rightarrow> st1
              | Inr response \<Rightarrow> stdout_write (JSON_stringify env response @ [LF]) st1))"

text \<open>
  The \<open>line\<close> handler is an async function. It runs until its \<open>await\<close>: a blank line
  returns, a line that does not parse goes to the \<open>catch\<close> block at once, and for a line
  that parses the handler calls \<open>sendMessage\<close> and is suspended on the promise.
  \<open>readline\<close> does not wait for the promise the handler returns.
\<close>

definition line_begin :: "node \<Rightarrow> sse_url \<Rightarrow> jsstring \<Rightarrow> proxy \<Rightarrow> proxy" where
  "line_begin env u line st =
     (if js_trim line = [] then st
      else
        (case JSON_parse env line of
           Inl msg \<Rightarrow> line_catch env line msg st
         | Inr message \<Rightarrow>
             (let (p, st1) = sendMessage env u message st
              in st1\<lparr>suspended := suspended st1 @ [(line, p)]\<rparr>)))"

text \<open>The rest of the handler, once the awaited promise is settled.\<close>

definition line_resume :: "node \<Rightarrow> jsstring \<Rightarrow> outcome \<Rightarrow> proxy \<Rightarrow> proxy" where
  "line_resume env line out st =
     (case out of Fulfilled \<Rightarrow> st | Rejected msg \<Rightarrow> line_catch env line msg st)"

text \<open>The \<open>close\<close> handler of the input and the signal handlers: log, destroy the SSE
  request (which changes nothing below) and exit with 0.\<close>

definition on_exit :: "jsstring \<Rightarrow> proxy \<Rightarrow> proxy" where
  "on_exit msg st = (console_error [msg] st)\<lparr>exitCode := Some 0\<rparr>"

section \<open>The event loop\<close>

text \<open>
  Node runs one handler at a time, each to its end or to its \<open>await\<close>. An event is the
  call of one handler: the response to the GET, a chunk, the end or an error of the SSE
  stream, or its connection closing before the response has ended (the response then
  emits \<open>aborted\<close> and \<open>close\<close>, and the program has no handler for either); a line of the
  local input; the end of the response to the POST with the given
  number, or its failure, which settles the promise a handler waits for; the microtask that
  resumes the suspended handler at the given position, once its promise is settled; the
  end of the local input and the two signals. After \<open>process.exit\<close> nothing runs. A
  sequence of events is any sequence: the model does not say which events the network and
  the local input can produce when, so what holds for every sequence holds for those that
  occur.
\<close>

datatype event =
    SseResponse nat
  | SseData "byte list"
  | SseEnd
  | SseClose
  | SseError jsstring
  | StdinLine jsstring
  | PostEnd nat nat jsstring
  | PostError nat jsstring
  | Resume nat
  | StdinClose
  | SIGINT
  | SIGTERM

definition settle :: "nat \<Rightarrow> outcome \<Rightarrow> proxy \<Rightarrow> proxy" where
  "settle k out st =
     st\<lparr>suspended := map (\<lambda>(line, p). (line, if p = InFlight k then Settled out else p))
                         (suspended st)\<rparr>"

definition resume :: "node \<Rightarrow> nat \<Rightarrow> proxy \<Rightarrow> proxy" where
  "resume env i st =
     (if i < length (suspended st) then
        (case suspended st ! i of
           (line, Settled out) \<Rightarrow>
             line_resume env line out
               (st\<lparr>suspended := take i (suspended st) @ drop (Suc i) (suspended st)\<rparr>)
         | (line, InFlight k) \<Rightarrow> st)
      else st)"

definition handle :: "node \<Rightarrow> sse_url \<Rightarrow> event \<Rightarrow> proxy \<Rightarrow> error + proxy" where
  "handle env u ev st =
     (case ev of
        SseResponse statusCode \<Rightarrow> Inr (on_response statusCode st)
      | SseData chunk \<Rightarrow> on_data env u chunk st
      | SseEnd \<Rightarrow> Inr (on_end st)
      | SseClose \<Rightarrow> Inr st
      | SseError msg \<Rightarrow> Inr (on_error msg st)
      | StdinLine line \<Rightarrow> Inr (line_begin env u line st)
      | PostEnd k statusCode data \<Rightarrow> Inr (settle k (post_end statusCode data) st)
      | PostError k msg \<Rightarrow> Inr (settle k (post_error msg) st)
      | Resume i \<Rightarrow> Inr (resume env i st)
      | StdinClose \<Rightarrow> Inr (on_exit (lit ''stdin closed, exiting'') st)
      | SIGINT \<Rightarrow> Inr (on_exit (lit ''Received SIGINT, exiting'') st)
      | SIGTERM \<Rightarrow> Inr (on_exit (lit ''Received SIGTERM, exiting'') st))"

definition step :: "node \<Rightarrow> sse_url \<Rightarrow> event \<Rightarrow> proxy \<Rightarrow> error + proxy" where
  "step env u ev st = (if exitCode st \<noteq> None then Inr st else handle env u ev st)"

fun run :: "node \<Rightarrow> sse_url \<Rightarrow> event list \<Rightarrow> proxy \<Rightarrow> error + proxy" where
  "run env u [] st = Inr st"
| "run env u (ev # evs) st =
     (case step env u ev st of
        Inl e \<Rightarrow> Inl e
      | Inr st' \<Rightarrow> run env u evs st')"

text \<open>The sends in flight: the suspended handlers whose request has no response yet.\<close>

definition in_flight :: "proxy \<Rightarrow> nat list" where
  "in_flight st = concat (map (\<lambda>(line, p). case p of InFlight k \<Rightarrow> [k] | Settled out \<Rightarrow> []) (suspended st))"

section \<open>A concrete process\<close>

text \<open>
  \<open>Buffer.toString\<close> decodes UTF-8 as the WHATWG decoder does. A sequence in progress is
  its code point so far, the number of bytes it still needs and the bounds of its next
  byte. An ill-formed or truncated sequence becomes U+FFFD, the byte that broke a sequence
  is read again as a first byte, and a code point above U+FFFF becomes a surrogate pair.
\<close>

type_synonym utf8_sequence = "nat \<times> nat \<times> nat \<times> nat"

definition utf8_start :: "byte \<Rightarrow> jschar + utf8_sequence" where
  "utf8_start b =
     (let n = unat b
      in if n \<le> 0x7F then Inl (of_nat n)
         else if 0xC2 \<le> n \<and> n \<le> 0xDF then Inr (n - 0xC0, 1, 0x80, 0xBF)
         else if 0xE0 \<le> n \<and> n \<le> 0xEF then
           Inr (n - 0xE0, 2, if n = 0xE0 then 0xA0 else 0x80, if n = 0xED then 0x9F else 0xBF)
         else if 0xF0 \<le> n \<and> n \<le> 0xF4 then
           Inr (n - 0xF0, 3, if n = 0xF0 then 0x90 else 0x80, if n = 0xF4 then 0x8F else 0xBF)
         else Inl 0xFFFD)"

definition code_units :: "nat \<Rightarrow> jsstring" where
  "code_units cp =
     (if cp < 0x10000 then [of_nat cp]
      else [of_nat (0xD800 + (cp - 0x10000) div 0x400), of_nat (0xDC00 + (cp - 0x10000) mod 0x400)])"

fun utf8_decode :: "utf8_sequence option \<Rightarrow> byte list \<Rightarrow> jsstring" where
  "utf8_decode None [] = []"
| "utf8_decode (Some q) [] = [0xFFFD]"
| "utf8_decode None (b # bs) =
     (case utf8_start b of
        Inl c \<Rightarrow> c # utf8_decode None bs
      | Inr q \<Rightarrow> utf8_decode (Some q) bs)"
| "utf8_decode (Some (cp, needed, lower, upper)) (b # bs) =
     (let n = unat b
      in if n < lower \<or> upper < n then 0xFFFD # utf8_decode None (b # bs)
         else if needed = 1 then code_units (cp * 0x40 + (n - 0x80)) @ utf8_decode None bs
         else utf8_decode (Some (cp * 0x40 + (n - 0x80), needed - 1, 0x80, 0xBF)) bs)"

definition utf8_toString :: "byte list \<Rightarrow> jsstring" where
  "utf8_toString bs = utf8_decode None bs"

text \<open>\<open>Buffer.byteLength\<close>: the length of the UTF-8 encoding; a lone surrogate is encoded as
  U+FFFD.\<close>

fun utf8_byteLength :: "jsstring \<Rightarrow> nat" where
  "utf8_byteLength [] = 0"
| "utf8_byteLength [c] = (if c < 0x80 then 1 else if c < 0x800 then 2 else 3)"
| "utf8_byteLength (c # d # cs) =
     (if c < 0x80 then 1 + utf8_byteLength (d # cs)
      else if c < 0x800 then 2 + utf8_byteLength (d # cs)
      else if 0xD800 \<le> c \<and> c \<le> 0xDBFF \<and> 0xDC00 \<le> d \<and> d \<le> 0xDFFF then 4 + utf8_byteLength cs
      else 3 + utf8_byteLength (d # cs))"

text \<open>The bytes of an ASCII text.\<close>

definition bytes :: "string \<Rightarrow> byte list" where
  "bytes s = map of_char s"

text \<open>The chunk \<open>event: endpoint\ndata: /sse?sessionId=abc123\n\n\<close>.\<close>

definition endpoint_chunk :: "byte list" where
  "endpoint_chunk =
     bytes ''event: endpoint'' @ [0x0A] @ bytes ''data: /sse?sessionId=abc123'' @ [0x0A, 0x0A]"

text \<open>
  The JSON texts used below and the values \<open>JSON.parse\<close> gives them. \<open>parse0\<close> knows two
  requests, \<open>null\<close> and the string literals without an escape, and rejects every other
  text; \<open>stringify0\<close> serialises values whose numbers are small integers and whose strings
  need no escape, as the values below.
\<close>

definition DQ :: jschar where
  "DQ = 0x22"

definition quoted :: "jsstring \<Rightarrow> jsstring" where
  "quoted s = DQ # s @ [DQ]"

definition member :: "string \<Rightarrow> jsstring \<Rightarrow> jsstring" where
  "member k v = quoted (lit k) @ lit '':'' @ v"

definition ping_text :: "nat \<Rightarrow> jsstring" where
  "ping_text i =
     lit ''{'' @ member ''jsonrpc'' (quoted (lit ''2.0'')) @ lit '','' @ member ''id'' (decimal i)
       @ lit '','' @ member ''method'' (quoted (lit ''ping'')) @ lit ''}''"

definition ping :: "nat \<Rightarrow> json" where
  "ping i =
     JObj [(lit ''jsonrpc'', JStr (lit ''2.0'')), (lit ''id'', JNum (Finite (of_nat i))),
           (lit ''method'', JStr (lit ''ping''))]"

fun plain :: "jsstring \<Rightarrow> bool" where
  "plain [] = True"
| "plain (c # cs) = (c \<noteq> DQ \<and> c \<noteq> 0x5C \<and> 0x20 \<le> c \<and> plain cs)"

definition parse0 :: "jsstring \<Rightarrow> jsstring + json" where
  "parse0 s =
     (if s = ping_text 1 then Inr (ping 1)
      else if s = ping_text 0 then Inr (ping 0)
      else if s = lit ''null'' then Inr JNull
      else if 2 \<le> length s \<and> hd s = DQ \<and> last s = DQ \<and> plain (butlast (tl s))
        then Inr (JStr (butlast (tl s)))
      else Inl (lit ''Unexpected token''))"

fun join :: "jsstring list \<Rightarrow> jsstring" where
  "join [] = []"
| "join [s] = s"
| "join (s # t # ts) = s @ lit '','' @ join (t # ts)"

fun stringify0 :: "json \<Rightarrow> jsstring" where
  "stringify0 JNull = lit ''null''"
| "stringify0 (JBool b) = (if b then lit ''true'' else lit ''false'')"
| "stringify0 (JNum n) =
     (case n of
        Finite r \<Rightarrow> (if r < 0 then lit ''-'' else []) @ decimal (nat \<lfloor>\<bar>r\<bar>\<rfloor>)
      | _ \<Rightarrow> lit ''null'')"
| "stringify0 (JStr s) = quoted s"
| "stringify0 (JArr vs) = lit ''['' @ join (map stringify0 vs) @ lit '']''"
| "stringify0 (JObj kvs) =
     lit ''{'' @ join (map (\<lambda>(k, v). quoted k @ lit '':'' @ stringify0 v) kvs) @ lit ''}''"

text \<open>\<open>new URL(d, b).searchParams.get('sessionId')\<close> at the three references used below.\<close>

definition url0 :: "jsstring \<Rightarrow> jsstring \<Rightarrow> url_lookup" where
  "url0 d b =
     (if d = lit ''/sse?sessionId=abc123'' then Param (Some (lit ''abc123''))
      else if d = lit ''/sse'' then Param None
      else if d = lit ''http://'' then InvalidURL
      else Param None)"

definition node0 :: node where
  "node0 = \<lparr>JSON_parse = parse0, JSON_stringify = stringify0, URL_sessionId = url0,
            toString = utf8_toString, byteLength = utf8_byteLength\<rparr>"

text \<open>The default SSE URL, \<open>http://localhost:3080/sse\<close>, and the state at the start of the
  program (lines 19 to 21).\<close>

definition localhost :: sse_url where
  "localhost = \<lparr>protocol = lit ''http:'', hostname = lit ''localhost'', port = lit ''3080'',
                pathname = lit ''/sse''\<rparr>"

definition initial :: proxy where
  "initial = \<lparr>sessionId = None, sseConnection = False, buffer = [], currentEvent = None,
              connecting = Pending, suspended = [], requests = [], stdout = [], stderr = [],
              exitCode = None, journal = []\<rparr>"

text \<open>The state once the stream is open and the server has assigned this session id.\<close>

definition active :: "jsstring \<Rightarrow> proxy" where
  "active sid = initial\<lparr>sessionId := Some sid, sseConnection := True, connecting := Done Fulfilled\<rparr>"

section \<open>Specification functions\<close>




text \<open>
  The session id a claim expects after these observations, from the session id before
  them: an \<open>endpoint\<close> frame writes the \<open>sessionId\<close> parameter of its payload, the end of
  the stream and a transport error make it absent, and nothing else writes it.
\<close>

fun session_after :: "node \<Rightarrow> sse_url \<Rightarrow> jsstring option \<Rightarrow> observation list \<Rightarrow> jsstring option" where
  "session_after env u sid [] = sid"
| "session_after env u sid (Frame ev data # obs) =
     session_after env u
       (if ev = Some (lit ''endpoint'') then
          (case URL_sessionId env data (lit ''http://'' @ hostname u @ lit '':'' @ options_port u) of
             InvalidURL \<Rightarrow> sid
           | Param p \<Rightarrow> p)
        else sid) obs"
| "session_after env u sid (StreamEnd # obs) = session_after env u None obs"
| "session_after env u sid (TransportError # obs) = session_after env u None obs"

text \<open>The POST that carries a message under a session id, and the POSTs a sequence of
  events asks for under that session id: one for each input line that is not blank and
  parses, in the order of the lines, and none at all when the path with that session id
  has a character that \<open>http.request\<close> refuses.\<close>

definition post_of :: "node \<Rightarrow> sse_url \<Rightarrow> jsstring \<Rightarrow> json \<Rightarrow> http_request" where
  "post_of env u sid message =
     \<lparr>req_hostname = hostname u,
      req_port = options_port u,
      req_path = pathname u @ lit ''?sessionId='' @ sid,
      req_method = lit ''POST'',
      content_type = lit ''application/json'',
      content_length = byteLength env (JSON_stringify env message),
      req_body = JSON_stringify env message\<rparr>"

fun expected_posts :: "node \<Rightarrow> sse_url \<Rightarrow> jsstring \<Rightarrow> event list \<Rightarrow> http_request list" where
  "expected_posts env u sid [] = []"
| "expected_posts env u sid (StdinLine line # evs) =
     (if js_trim line = [] \<or> unescaped (pathname u @ lit ''?sessionId='' @ sid) then []
      else (case JSON_parse env line of
              Inl msg \<Rightarrow> []
            | Inr message \<Rightarrow> [post_of env u sid message]))
     @ expected_posts env u sid evs"
| "expected_posts env u sid (ev # evs) = expected_posts env u sid evs"

text \<open>The events of the dispatcher: an input line, the end or the failure of a POST, the
  resumption of a suspended handler.\<close>

fun dispatcher_event :: "event \<Rightarrow> bool" where
  "dispatcher_event (StdinLine line) = True"
| "dispatcher_event (PostEnd k statusCode data) = True"
| "dispatcher_event (PostError k msg) = True"
| "dispatcher_event (Resume i) = True"
| "dispatcher_event ev = False"

section \<open>Properties\<close>

lemmas effects = console_error_def stdout_write_def observe_def resolve_def reject_def

lemmas concrete = lit_def LF_def DQ_def quoted_def member_def ping_text_def ping_def parse0_def
  url0_def node0_def localhost_def initial_def active_def utf8_toString_def utf8_start_def
  code_units_def bytes_def endpoint_chunk_def

subsection \<open>Sending without a session\<close>




subsection \<open>The lines of the SSE stream\<close>

lemma data_not_event: "startsWith line (lit ''data: '') \<Longrightarrow> \<not> startsWith line (lit ''event: '')"
  by (cases line) (auto simp: startsWith_def lit_def)

lemma startsWith_append [simp]: "startsWith (p @ s) p"
  by (simp add: startsWith_def)

lemma data_line_not_event [simp]: "\<not> startsWith (lit ''data: '' @ d) (lit ''event: '')"
  by (simp add: data_not_event)

lemma length_data_prefix [simp]: "length (lit ''data: '') = 6"
  by (simp add: lit_def)

text \<open>
  C7. A \<open>data: \<close> line read while the pending event type is \<open>message\<close>, absent or empty,
  whose payload is not the sentinel \<open>[DONE]\<close> and does not parse as JSON, writes nothing
  to the output, does not throw, and logs one entry that holds the first 50 code units of
  the payload; the pending event type is reset.
\<close>

theorem malformed_message_dropped:
  assumes "currentEvent st = Some (lit ''message'') \<or> falsy (currentEvent st)"
    and "data \<noteq> lit ''[DONE]''"
    and "JSON_parse env data = Inl e"
  shows "process_line env u (lit ''data: '' @ data) st =
           Inr (st\<lparr>currentEvent := None,
                    stderr := stderr st @ [[lit ''Failed to parse SSE message:'', take 50 data]],
                    journal := journal st @ [Frame (currentEvent st) data]\<rparr>)
         \<and> length (take 50 data) \<le> 50"
proof -
  have ne: "currentEvent st \<noteq> Some (lit ''endpoint'')"
    using assms(1) by (cases "currentEvent st") (auto simp: lit_def)
  show ?thesis
    using assms ne by (simp add: process_line_def effects)
qed

theorem malformed_message_dropped_witness:
  "process_line node0 localhost (lit ''data: {bad'') (initial\<lparr>currentEvent := Some (lit ''message'')\<rparr>) =
     Inr (initial\<lparr>stderr := [[lit ''Failed to parse SSE message:'', lit ''{bad'']],
                  journal := [Frame (Some (lit ''message'')) (lit ''{bad'')]\<rparr>)"
proof -
  let ?st = "initial\<lparr>currentEvent := Some (lit ''message'')\<rparr>"
  have 1: "currentEvent ?st = Some (lit ''message'') \<or> falsy (currentEvent ?st)"
    by simp
  have 2: "lit ''{bad'' \<noteq> lit ''[DONE]''"
    by (simp add: lit_def)
  have 3: "JSON_parse node0 (lit ''{bad'') = Inl (lit ''Unexpected token'')"
    by (simp add: concrete)
  have 4: "lit ''data: '' @ lit ''{bad'' = lit ''data: {bad''"
    by (simp add: lit_def)
  from malformed_message_dropped [OF 1 2 3, of localhost] 4 show ?thesis
    by (simp add: initial_def lit_def)
qed

text \<open>
  C5, as the code has it. A line that starts with \<open>data: \<close> and is processed without an
  exception presents its payload with the pending event type and resets the pending event
  type (an exception can only come from \<open>new URL\<close> on the payload of an \<open>endpoint\<close> event).
  An empty line resets the pending event type and presents nothing. Every other line that
  starts with neither \<open>event: \<close> nor \<open>data: \<close> leaves the whole state, the pending event
  type included, as it is.
\<close>

theorem pending_event_reset:
  "(startsWith line (lit ''data: '') \<longrightarrow>
      (case process_line env u line st of
         Inr st' \<Rightarrow> currentEvent st' = None
                   \<and> journal st' = journal st @ [Frame (currentEvent st) (drop 6 line)]
       | Inl e \<Rightarrow> currentEvent st = Some (lit ''endpoint'')
                  \<and> URL_sessionId env (drop 6 line)
                       (lit ''http://'' @ hostname u @ lit '':'' @ options_port u) = InvalidURL))
   \<and> (line = [] \<longrightarrow> process_line env u line st = Inr (st\<lparr>currentEvent := None\<rparr>))
   \<and> (\<not> startsWith line (lit ''event: '') \<and> \<not> startsWith line (lit ''data: '') \<and> line \<noteq> [] \<longrightarrow>
        process_line env u line st = Inr st)"
proof (intro conjI impI)
  assume d: "startsWith line (lit ''data: '')"
  then have "\<not> startsWith line (lit ''event: '')"
    by (rule data_not_event)
  with d show "case process_line env u line st of
         Inr st' \<Rightarrow> currentEvent st' = None
                   \<and> journal st' = journal st @ [Frame (currentEvent st) (drop 6 line)]
       | Inl e \<Rightarrow> currentEvent st = Some (lit ''endpoint'')
                  \<and> URL_sessionId env (drop 6 line)
                       (lit ''http://'' @ hostname u @ lit '':'' @ options_port u) = InvalidURL"
    by (simp add: process_line_def effects Let_def split: url_lookup.splits sum.splits)
next
  assume "line = []"
  then show "process_line env u line st = Inr (st\<lparr>currentEvent := None\<rparr>)"
    by (simp add: process_line_def startsWith_def lit_def)
next
  assume "\<not> startsWith line (lit ''event: '') \<and> \<not> startsWith line (lit ''data: '') \<and> line \<noteq> []"
  then show "process_line env u line st = Inr st"
    by (simp add: process_line_def)
qed

theorem pending_event_reset_witness:
  "startsWith (lit ''data: x'') (lit ''data: '')
   \<and> (case process_line node0 localhost (lit ''data: x'') (initial\<lparr>currentEvent := Some (lit ''ping'')\<rparr>) of
        Inr st' \<Rightarrow> currentEvent st' = None \<and> journal st' = [Frame (Some (lit ''ping'')) (lit ''x'')]
      | Inl e \<Rightarrow> False)
   \<and> process_line node0 localhost [] (initial\<lparr>currentEvent := Some (lit ''ping'')\<rparr>) = Inr initial
   \<and> \<not> startsWith (lit '': keepalive'') (lit ''event: '')
   \<and> \<not> startsWith (lit '': keepalive'') (lit ''data: '')
   \<and> process_line node0 localhost (lit '': keepalive'') (initial\<lparr>currentEvent := Some (lit ''ping'')\<rparr>) =
       Inr (initial\<lparr>currentEvent := Some (lit ''ping'')\<rparr>)"
proof -
  let ?st = "initial\<lparr>currentEvent := Some (lit ''ping'')\<rparr>"
  have d: "startsWith (lit ''data: x'') (lit ''data: '')"
    by (simp add: startsWith_def lit_def)
  have k: "\<not> startsWith (lit '': keepalive'') (lit ''event: '')
           \<and> \<not> startsWith (lit '': keepalive'') (lit ''data: '') \<and> lit '': keepalive'' \<noteq> []"
    by (simp add: startsWith_def lit_def)
  have ne: "lit ''ping'' \<noteq> lit ''endpoint''"
    by (simp add: lit_def)
  have x: "drop 6 (lit ''data: x'') = lit ''x''"
    by (simp add: lit_def)
  from d pending_event_reset [where line = "lit ''data: x''" and env = node0 and u = localhost and st = ?st]
  have 1: "case process_line node0 localhost (lit ''data: x'') ?st of
        Inr st' \<Rightarrow> currentEvent st' = None \<and> journal st' = [Frame (Some (lit ''ping'')) (lit ''x'')]
      | Inl e \<Rightarrow> False"
    using ne x by (auto simp: initial_def split: sum.splits)
  from pending_event_reset [where line = "[]" and env = node0 and u = localhost and st = ?st]
  have 2: "process_line node0 localhost [] ?st = Inr initial"
    by (simp add: initial_def)
  from k pending_event_reset [where line = "lit '': keepalive''" and env = node0 and u = localhost and st = ?st]
  have 3: "process_line node0 localhost (lit '': keepalive'') ?st = Inr ?st"
    by blast
  from d 1 2 k 3 show ?thesis by blast
qed

text \<open>
  C5 as the claim states it fails: the line \<open>id: 1\<close> starts with neither prefix, and the
  pending event type \<open>message\<close> is still pending after it.
\<close>

theorem other_line_keeps_event_counterexample:
  "\<not> startsWith (lit ''id: 1'') (lit ''event: '') \<and> \<not> startsWith (lit ''id: 1'') (lit ''data: '')
   \<and> process_line node0 localhost (lit ''id: 1'') (initial\<lparr>currentEvent := Some (lit ''message'')\<rparr>) =
       Inr (initial\<lparr>currentEvent := Some (lit ''message'')\<rparr>)"
  by (simp add: process_line_def startsWith_def lit_def)

subsection \<open>The dispatcher\<close>

lemma line_catch_fields [simp]:
  "sessionId (line_catch env line msg st) = sessionId st"
  "exitCode (line_catch env line msg st) = exitCode st"
  "journal (line_catch env line msg st) = journal st"
  "requests (line_catch env line msg st) = requests st"
  "suspended (line_catch env line msg st) = suspended st"
  by (simp_all add: line_catch_def effects Let_def split: sum.splits)

lemma line_begin_fields [simp]:
  "sessionId (line_begin env u line st) = sessionId st"
  "exitCode (line_begin env u line st) = exitCode st"
  "journal (line_begin env u line st) = journal st"
  by (simp_all add: line_begin_def sendMessage_def Let_def split: sum.splits option.splits)

lemma line_begin_after_log:
  "stdout (line_begin env u later (console_error a st)) = stdout (line_begin env u later st)"
  "requests (line_begin env u later (console_error a st)) = requests (line_begin env u later st)"
  "suspended (line_begin env u later (console_error a st)) = suspended (line_begin env u later st)"
  by (simp_all add: line_begin_def line_catch_def sendMessage_def effects Let_def
      split: sum.splits option.splits)

lemma line_begin_requests:
  "requests (line_begin env u line st) =
     requests st @ (case sessionId st of
                      None \<Rightarrow> []
                    | Some sid \<Rightarrow> if sid = [] then [] else expected_posts env u sid [StdinLine line])"
  by (simp add: line_begin_def sendMessage_def post_of_def Let_def split: sum.splits option.splits)

lemma settle_fields [simp]:
  "sessionId (settle k out st) = sessionId st"
  "exitCode (settle k out st) = exitCode st"
  "journal (settle k out st) = journal st"
  "requests (settle k out st) = requests st"
  by (simp_all add: settle_def)

lemma resume_fields [simp]:
  "sessionId (resume env i st) = sessionId st"
  "exitCode (resume env i st) = exitCode st"
  "journal (resume env i st) = journal st"
  "requests (resume env i st) = requests st"
  by (simp_all add: resume_def line_resume_def split: prod.splits awaited.splits outcome.splits)

lemma expected_posts_Cons:
  "expected_posts env u sid (ev # evs) = expected_posts env u sid [ev] @ expected_posts env u sid evs"
  by (cases ev) simp_all

lemma dispatcher_step:
  assumes "dispatcher_event ev"
  shows "\<exists>st'. step env u ev st = Inr st' \<and> sessionId st' = sessionId st
           \<and> exitCode st' = exitCode st \<and> journal st' = journal st
           \<and> requests st' =
               requests st @ (if exitCode st \<noteq> None then []
                              else case sessionId st of
                                     None \<Rightarrow> []
                                   | Some sid \<Rightarrow> if sid = [] then []
                                                 else expected_posts env u sid [ev])"
  using assms
  by (cases ev) (auto simp: step_def handle_def line_begin_requests split: option.splits)

lemma dispatcher_run:
  assumes "\<forall>ev \<in> set evs. dispatcher_event ev"
    and "sessionId st = Some sid" and "sid \<noteq> []" and "exitCode st = None"
  shows "\<exists>st'. run env u evs st = Inr st' \<and> sessionId st' = Some sid \<and> exitCode st' = None
           \<and> requests st' = requests st @ expected_posts env u sid evs"
  using assms
proof (induction evs arbitrary: st)
  case Nil
  then show ?case by simp
next
  case (Cons ev evs)
  from Cons.prems(1) have "dispatcher_event ev"
    by simp
  from dispatcher_step [OF this, of env u st] Cons.prems(2-4)
  obtain st1 where 1: "step env u ev st = Inr st1" "sessionId st1 = Some sid"
    "exitCode st1 = None" "requests st1 = requests st @ expected_posts env u sid [ev]"
    by auto
  from Cons.IH [of st1] Cons.prems(1,3) 1
  obtain st' where 2: "run env u evs st1 = Inr st'" "sessionId st' = Some sid" "exitCode st' = None"
    "requests st' = requests st1 @ expected_posts env u sid evs"
    by auto
  from 1 2 show ?case
    by (simp add: expected_posts_Cons [of env u sid ev evs])
qed

lemma dispatcher_run_no_session:
  assumes "\<forall>ev \<in> set evs. dispatcher_event ev" and "falsy (sessionId st)"
  shows "\<exists>st'. run env u evs st = Inr st' \<and> sessionId st' = sessionId st
           \<and> requests st' = requests st"
  using assms
proof (induction evs arbitrary: st)
  case Nil
  then show ?case by simp
next
  case (Cons ev evs)
  from Cons.prems(1) have "dispatcher_event ev"
    by simp
  from dispatcher_step [OF this, of env u st] Cons.prems(2)
  obtain st1 where 1: "step env u ev st = Inr st1" "sessionId st1 = sessionId st"
    "requests st1 = requests st"
    by (cases "sessionId st") (auto split: if_splits)
  from Cons.IH [of st1] Cons.prems 1
  obtain st' where 2: "run env u evs st1 = Inr st'" "sessionId st' = sessionId st1"
    "requests st' = requests st1"
    by auto
  from 1 2 show ?case
    by simp
qed

lemmas handlers = step_def handle_def line_begin_def line_catch_def line_resume_def sendMessage_def
  settle_def resume_def post_end_def post_error_def errorResponse_def id_or_null_def
  js_trim_def is_js_space_def

text \<open>
  C1, as the code has it. A line that \<open>JSON.parse\<close> rejects writes nothing to the output:
  the \<open>catch\<close> block parses the line again to build the error response, that throws again
  and the inner \<open>catch\<close> swallows it. A blank line is skipped, any other such line logs one
  entry; no request is issued, no handler stays suspended, nothing is thrown, and the next
  line is handled as it would have been without this one (same output, same requests, same
  suspended handlers).
\<close>

theorem invalid_line_logged_only:
  assumes "JSON_parse env line = Inl msg"
  shows "line_begin env u line st =
           (if js_trim line = [] then st
            else console_error [lit ''Error processing message:'', msg] st)
         \<and> stdout (line_begin env u line st) = stdout st
         \<and> stdout (line_begin env u later (line_begin env u line st)) = stdout (line_begin env u later st)
         \<and> requests (line_begin env u later (line_begin env u line st)) = requests (line_begin env u later st)
         \<and> suspended (line_begin env u later (line_begin env u line st)) = suspended (line_begin env u later st)"
proof -
  have 1: "line_begin env u line st =
           (if js_trim line = [] then st
            else console_error [lit ''Error processing message:'', msg] st)"
    using assms by (simp add: line_begin_def line_catch_def)
  then show ?thesis
    by (simp add: line_begin_after_log) (simp add: console_error_def)
qed

theorem invalid_line_logged_only_witness:
  "JSON_parse node0 (lit ''{bad'') = Inl (lit ''Unexpected token'')
   \<and> line_begin node0 localhost (lit ''{bad'') (active (lit ''abc123'')) =
       console_error [lit ''Error processing message:'', lit ''Unexpected token''] (active (lit ''abc123''))
   \<and> requests (line_begin node0 localhost (ping_text 1)
        (line_begin node0 localhost (lit ''{bad'') (active (lit ''abc123'')))) =
       [post_of node0 localhost (lit ''abc123'') (ping 1)]"
proof -
  have p: "JSON_parse node0 (lit ''{bad'') = Inl (lit ''Unexpected token'')"
    by (simp add: concrete)
  have t: "js_trim (lit ''{bad'') \<noteq> []"
    by (simp add: js_trim_def is_js_space_def lit_def)
  have n: "requests (line_begin node0 localhost (ping_text 1) (active (lit ''abc123''))) =
       [post_of node0 localhost (lit ''abc123'') (ping 1)]"
    by (simp add: line_begin_def sendMessage_def post_of_def js_trim_def is_js_space_def concrete)
  note th = invalid_line_logged_only [OF p, where u = localhost and st = "active (lit ''abc123'')"
      and later = "ping_text 1"]
  from th t have a: "line_begin node0 localhost (lit ''{bad'') (active (lit ''abc123'')) =
       console_error [lit ''Error processing message:'', lit ''Unexpected token''] (active (lit ''abc123''))"
    by metis
  from th n have b: "requests (line_begin node0 localhost (ping_text 1)
        (line_begin node0 localhost (lit ''{bad'') (active (lit ''abc123'')))) =
       [post_of node0 localhost (lit ''abc123'') (ping 1)]"
    by metis
  from p a b show ?thesis by blast
qed

text \<open>
  C1 as the claim states it fails: the line \<open>{bad\<close> is not valid JSON, and the handler
  ends with nothing written to the output and nothing left to run.
\<close>

theorem invalid_line_counterexample:
  "JSON_parse node0 (lit ''{bad'') = Inl (lit ''Unexpected token'')
   \<and> stdout (line_begin node0 localhost (lit ''{bad'') (active (lit ''abc123''))) = []
   \<and> suspended (line_begin node0 localhost (lit ''{bad'') (active (lit ''abc123''))) = []"
  by (simp add: line_begin_def line_catch_def js_trim_def is_js_space_def effects concrete)

text \<open>
  C3, as the code has it. Under a session id, whatever ends, fails or resumes in between,
  the POSTs issued are those of the input lines that are not blank and parse, one for
  each, in the order of the lines: the request of a line is issued when its handler runs,
  and no handler waits for the send of an earlier line. When the path with the session id
  has a character outside U+0021 to U+00FF, \<open>http.request\<close> throws, every send is rejected
  at once and no POST is issued.
\<close>

theorem posts_in_arrival_order:
  assumes "\<forall>ev \<in> set evs. dispatcher_event ev"
    and "sessionId st = Some sid" and "sid \<noteq> []" and "exitCode st = None"
  shows "\<exists>st'. run env u evs st = Inr st'
           \<and> requests st' = requests st @ expected_posts env u sid evs"
  using dispatcher_run [OF assms] by blast

theorem posts_in_arrival_order_witness:
  "sessionId (active (lit ''abc123'')) = Some (lit ''abc123'')
   \<and> exitCode (active (lit ''abc123'')) = None
   \<and> (\<exists>st'. run node0 localhost
               [StdinLine (ping_text 1), PostEnd 0 200 [], StdinLine (lit ''{bad''),
                StdinLine (ping_text 0), Resume 0] (active (lit ''abc123'')) = Inr st'
          \<and> requests st' = [post_of node0 localhost (lit ''abc123'') (ping 1),
                             post_of node0 localhost (lit ''abc123'') (ping 0)])"
proof -
  let ?evs = "[StdinLine (ping_text 1), PostEnd 0 200 [], StdinLine (lit ''{bad''),
               StdinLine (ping_text 0), Resume 0]"
  have d: "\<forall>ev \<in> set ?evs. dispatcher_event ev"
    by simp
  have s: "sessionId (active (lit ''abc123'')) = Some (lit ''abc123'')"
    by (simp add: active_def)
  have n: "lit ''abc123'' \<noteq> []"
    by (simp add: lit_def)
  have x: "exitCode (active (lit ''abc123'')) = None"
    by (simp add: active_def initial_def)
  have r: "requests (active (lit ''abc123'')) = []"
    by (simp add: active_def initial_def)
  have e: "expected_posts node0 localhost (lit ''abc123'') ?evs =
             [post_of node0 localhost (lit ''abc123'') (ping 1),
              post_of node0 localhost (lit ''abc123'') (ping 0)]"
    by (simp add: js_trim_def is_js_space_def concrete)
  from posts_in_arrival_order [OF d s n x, of node0 localhost] r e
  have "\<exists>st'. run node0 localhost ?evs (active (lit ''abc123'')) = Inr st'
          \<and> requests st' = [post_of node0 localhost (lit ''abc123'') (ping 1),
                             post_of node0 localhost (lit ''abc123'') (ping 0)]"
    by simp
  with s x show ?thesis
    by blast
qed

text \<open>
  The session id \<open>a b\<close> (the parameter \<open>a+b\<close>, decoded) makes a path with a space:
  \<open>http.request\<close> throws, no POST is issued, and the handler writes the error response.
\<close>

lemma refused_path_rejects:
  "expected_posts node0 localhost (lit ''a b'') [StdinLine (ping_text 1), Resume 0] = []
   \<and> run node0 localhost [StdinLine (ping_text 1), Resume 0] (active (lit ''a b'')) =
       Inr ((active (lit ''a b''))
              \<lparr>stdout := [lit ''{'' @ member ''jsonrpc'' (quoted (lit ''2.0'')) @ lit '','' @
                          member ''id'' (lit ''1'') @ lit '','' @
                          member ''error'' (lit ''{'' @ member ''code'' (lit ''-32603'') @ lit '','' @
                            member ''message''
                              (quoted (lit ''Request path contains unescaped characters'')) @
                            lit ''}'') @
                          lit ''}'' @ [LF]],
               stderr := [[lit ''Error processing message:'',
                           lit ''Request path contains unescaped characters'']]\<rparr>)"
  by (simp add: handlers effects concrete)

text \<open>
  C3 as the claim states it fails: after two input lines, before any response, the POSTs
  of both are in flight.
\<close>

theorem sends_overlap_counterexample:
  "map_sum id in_flight
     (run node0 localhost [StdinLine (ping_text 1), StdinLine (ping_text 0)] (active (lit ''abc123'')))
   = Inr [0, 1]"
  by (simp add: step_def handle_def line_begin_def sendMessage_def in_flight_def
      js_trim_def is_js_space_def concrete)

text \<open>
  C8 fails on the code. The request \<open>{"jsonrpc":"2.0","id":0,"method":"ping"}\<close> has the
  id \<open>0\<close>; its POST is answered with status 500, and the error response written to the
  output has the id \<open>null\<close>, since \<open>parsedMessage.id || null\<close> takes the falsy \<open>0\<close> for absent.
\<close>

theorem falsy_id_becomes_null:
  "get_id (ping 0) = Inr (Some (JNum (Finite 0)))
   \<and> errorResponse (ping 0) (lit ''HTTP 500: oops'') =
       Inr (JObj [(lit ''jsonrpc'', JStr (lit ''2.0'')),
                  (lit ''id'', JNull),
                  (lit ''error'', JObj [(lit ''code'', JNum (Finite (- 32603))),
                                        (lit ''message'', JStr (lit ''HTTP 500: oops''))])])
   \<and> run node0 localhost [StdinLine (ping_text 0), PostEnd 0 500 (lit ''oops''), Resume 0]
         (active (lit ''abc123'')) =
       Inr ((active (lit ''abc123''))
              \<lparr>requests := [post_of node0 localhost (lit ''abc123'') (ping 0)],
               stdout := [lit ''{'' @ member ''jsonrpc'' (quoted (lit ''2.0'')) @ lit '','' @
                          member ''id'' (lit ''null'') @ lit '','' @
                          member ''error'' (lit ''{'' @ member ''code'' (lit ''-32603'') @ lit '','' @
                            member ''message'' (quoted (lit ''HTTP 500: oops'')) @ lit ''}'') @
                          lit ''}'' @ [LF]],
               stderr := [[lit ''Error processing message:'', lit ''HTTP 500: oops'']]\<rparr>)"
  by (simp add: handlers effects post_of_def concrete)

subsection \<open>An endpoint event without a session id\<close>

text \<open>
  C9. When the payload of an \<open>endpoint\<close> event is a URL without the parameter
  \<open>sessionId\<close>, the line is processed without an error, the session id is absent after
  it, the pending promise of \<open>connectSSEStream\<close> is fulfilled, and \<open>sendMessage\<close> rejects
  every message with \<open>No active session\<close>; whatever the dispatcher does afterwards, no
  request is issued.
\<close>

theorem endpoint_without_sessionId:
  assumes "currentEvent st = Some (lit ''endpoint'')"
    and "URL_sessionId env data (lit ''http://'' @ hostname u @ lit '':'' @ options_port u) = Param None"
  shows "\<exists>st'. process_line env u (lit ''data: '' @ data) st = Inr st'
           \<and> sessionId st' = None
           \<and> (connecting st = Pending \<longrightarrow> connecting st' = Done Fulfilled)
           \<and> (\<forall>message. sendMessage env u message st' =
                 (Settled (Rejected (lit ''No active session'')), st'))
           \<and> (\<forall>evs. (\<forall>ev \<in> set evs. dispatcher_event ev) \<longrightarrow>
                 (\<exists>st''. run env u evs st' = Inr st'' \<and> sessionId st'' = None
                    \<and> requests st'' = requests st))"
proof -
  let ?st' = "(resolve (console_error [lit ''Session established: '' @ show_session None]
                 ((observe (Frame (currentEvent st) data) st)\<lparr>sessionId := None\<rparr>)))
              \<lparr>currentEvent := None\<rparr>"
  have 1: "process_line env u (lit ''data: '' @ data) st = Inr ?st'"
    using assms by (simp add: process_line_def effects Let_def)
  have 2: "sessionId ?st' = None" "requests ?st' = requests st"
    by (simp_all add: effects)
  have 3: "connecting st = Pending \<longrightarrow> connecting ?st' = Done Fulfilled"
    by (simp add: effects)
  have 4: "\<forall>message. sendMessage env u message ?st' =
                 (Settled (Rejected (lit ''No active session'')), ?st')"
    using 2 by (simp add: sendMessage_def)
  have 5: "\<forall>evs. (\<forall>ev \<in> set evs. dispatcher_event ev) \<longrightarrow>
                 (\<exists>st''. run env u evs ?st' = Inr st'' \<and> sessionId st'' = None
                    \<and> requests st'' = requests st)"
  proof (intro allI impI)
    fix evs
    assume d: "\<forall>ev \<in> set evs. dispatcher_event ev"
    have "falsy (sessionId ?st')"
      using 2 by simp
    from dispatcher_run_no_session [OF d this, of env u] 2
    show "\<exists>st''. run env u evs ?st' = Inr st'' \<and> sessionId st'' = None \<and> requests st'' = requests st"
      by auto
  qed
  from 1 2 3 4 5 show ?thesis
    by blast
qed

theorem endpoint_without_sessionId_witness:
  "currentEvent (initial\<lparr>currentEvent := Some (lit ''endpoint'')\<rparr>) = Some (lit ''endpoint'')
   \<and> URL_sessionId node0 (lit ''/sse'')
        (lit ''http://'' @ hostname localhost @ lit '':'' @ options_port localhost) = Param None
   \<and> (\<exists>st'. process_line node0 localhost (lit ''data: /sse'')
               (initial\<lparr>currentEvent := Some (lit ''endpoint'')\<rparr>) = Inr st'
          \<and> sessionId st' = None \<and> connecting st' = Done Fulfilled
          \<and> sendMessage node0 localhost (ping 1) st' =
               (Settled (Rejected (lit ''No active session'')), st')
          \<and> (\<exists>st''. run node0 localhost [StdinLine (ping_text 1), Resume 0] st' = Inr st''
                 \<and> requests st'' = []))"
proof -
  let ?st = "initial\<lparr>currentEvent := Some (lit ''endpoint'')\<rparr>"
  have 1: "currentEvent ?st = Some (lit ''endpoint'')"
    by simp
  have 2: "URL_sessionId node0 (lit ''/sse'')
        (lit ''http://'' @ hostname localhost @ lit '':'' @ options_port localhost) = Param None"
    by (simp add: concrete)
  have 3: "lit ''data: '' @ lit ''/sse'' = lit ''data: /sse''"
    by (simp add: lit_def)
  have 4: "connecting ?st = Pending" "requests ?st = []"
    by (simp_all add: initial_def)
  have 5: "\<forall>ev \<in> set [StdinLine (ping_text 1), Resume 0]. dispatcher_event ev"
    by simp
  from endpoint_without_sessionId [OF 1 2] 3 4 5
  have "\<exists>st'. process_line node0 localhost (lit ''data: /sse'') ?st = Inr st'
          \<and> sessionId st' = None \<and> connecting st' = Done Fulfilled
          \<and> sendMessage node0 localhost (ping 1) st' =
               (Settled (Rejected (lit ''No active session'')), st')
          \<and> (\<exists>st''. run node0 localhost [StdinLine (ping_text 1), Resume 0] st' = Inr st''
                 \<and> requests st'' = [])"
    by (metis (no_types, lifting))
  with 1 2 show ?thesis
    by blast
qed

subsection \<open>The endpoint event and the POST that follows\<close>








subsection \<open>Chunks\<close>

text \<open>
  On strings the parser does not depend on where the chunks are cut: a chunk in two parts
  is handled as the whole. For the Buffers of the stream this holds when decoding the
  parts gives the parts of the decoded whole, as it does when the first part is ASCII.
\<close>

lemma split_nl_nonempty [simp]: "split_nl s \<noteq> []"
  by (induction s) (auto split: list.splits)

lemma split_nl_append:
  "split_nl (a @ b) = butlast (split_nl a) @ split_nl (last (split_nl a) @ b)"
  by (induction a) (auto split: list.splits)

lemma process_line_buffer:
  "process_line env u line (st\<lparr>buffer := b\<rparr>) =
     map_sum id (\<lambda>s. s\<lparr>buffer := b\<rparr>) (process_line env u line st)"
proof (cases "startsWith line (lit ''data: '') \<and> \<not> startsWith line (lit ''event: '')")
  case False
  then show ?thesis
    by (auto simp: process_line_def)
next
  case data: True
  show ?thesis
  proof (cases "currentEvent st = Some (lit ''endpoint'')")
    case True
    with data show ?thesis
      by (cases "URL_sessionId env (drop 6 line) (lit ''http://'' @ hostname u @ lit '':'' @ options_port u)")
        (simp_all add: process_line_def effects Let_def)
  next
    case False
    with data show ?thesis
      by (cases "JSON_parse env (drop 6 line)") (simp_all add: process_line_def effects Let_def)
  qed
qed

lemma process_lines_buffer:
  "process_lines env u lines (st\<lparr>buffer := b\<rparr>) =
     map_sum id (\<lambda>s. s\<lparr>buffer := b\<rparr>) (process_lines env u lines st)"
proof (induction lines arbitrary: st)
  case Nil
  then show ?case by simp
next
  case (Cons line lines)
  then show ?case
    by (cases "process_line env u line st") (simp_all add: process_line_buffer)
qed

lemma process_lines_append:
  "process_lines env u (xs @ ys) st =
     (case process_lines env u xs st of
        Inl e \<Rightarrow> Inl e
      | Inr st' \<Rightarrow> process_lines env u ys st')"
  by (induction xs arbitrary: st) (simp_all split: sum.splits)

lemma on_chunk_append:
  "on_chunk env u (a @ b) st =
     (case on_chunk env u a st of
        Inl e \<Rightarrow> Inl e
      | Inr st' \<Rightarrow> on_chunk env u b st')"
proof -
  let ?la = "split_nl (buffer st @ a)"
  let ?lb = "split_nl (last ?la @ b)"
  have s: "split_nl (buffer st @ a @ b) = butlast ?la @ ?lb"
    using split_nl_append [of "buffer st @ a" b] by simp
  have bl: "butlast (butlast ?la @ ?lb) = butlast ?la @ butlast ?lb"
    by (simp add: butlast_append)
  have whole: "on_chunk env u (a @ b) st =
      process_lines env u (butlast ?la @ butlast ?lb) (st\<lparr>buffer := last ?lb\<rparr>)"
    by (simp add: on_chunk_def s bl pop_or_empty_def Let_def)
  have first: "on_chunk env u a st =
      map_sum id (\<lambda>s. s\<lparr>buffer := last ?la\<rparr>) (process_lines env u (butlast ?la) st)"
    by (simp add: on_chunk_def pop_or_empty_def process_lines_buffer Let_def)
  show ?thesis
  proof (cases "process_lines env u (butlast ?la) st")
    case (Inl e)
    then show ?thesis
      unfolding whole first by (simp add: process_lines_append process_lines_buffer)
  next
    case (Inr st1)
    have "on_chunk env u b (st1\<lparr>buffer := last ?la\<rparr>) =
        process_lines env u (butlast ?lb) (st1\<lparr>buffer := last ?lb\<rparr>)"
      by (simp add: on_chunk_def pop_or_empty_def Let_def)
    with Inr show ?thesis
      unfolding whole first by (simp add: process_lines_append process_lines_buffer)
  qed
qed

lemma on_data_append:
  assumes "toString env (a @ b) = toString env a @ toString env b"
  shows "on_data env u (a @ b) st =
     (case on_data env u a st of
        Inl e \<Rightarrow> Inl e
      | Inr st' \<Rightarrow> on_data env u b st')"
  unfolding on_data_def assms by (rule on_chunk_append)

lemma utf8_decode_ascii:
  assumes "\<forall>x \<in> set a. x < 0x80"
  shows "utf8_decode None (a @ b) = map (\<lambda>x. of_nat (unat x)) a @ utf8_decode None b"
  using assms
proof (induction a)
  case Nil
  then show ?case by simp
next
  case (Cons x a)
  then have "x < 0x80"
    by simp
  then have "unat x \<le> 0x7F"
    by (simp add: word_less_nat_alt)
  then have "utf8_start x = Inl (of_nat (unat x))"
    by (simp add: utf8_start_def Let_def)
  with Cons show ?case
    by simp
qed

lemma utf8_toString_ascii:
  assumes "\<forall>x \<in> set a. x < 0x80"
  shows "utf8_toString (a @ b) = utf8_toString a @ utf8_toString b"
  using utf8_decode_ascii [OF assms, of b] utf8_decode_ascii [OF assms, of "[]"]
  by (simp add: utf8_toString_def)

lemma on_data_ascii:
  assumes "toString env = utf8_toString" and "\<forall>x \<in> set a. x < 0x80"
  shows "on_data env u (a @ b) st =
     (case on_data env u a st of
        Inl e \<Rightarrow> Inl e
      | Inr st' \<Rightarrow> on_data env u b st')"
  by (rule on_data_append) (simp add: assms(1) utf8_toString_ascii [OF assms(2)])

text \<open>
  C4 fails on the code. The stream \<open>data: "\<close>, \<open>C3 A9\<close> (the letter e with acute accent in
  UTF-8), \<open>"\<close>, two line feeds is valid SSE framing. In one chunk the frame carries the JSON
  text of that letter and it is relayed; cut between the two bytes of the letter, each
  chunk is decoded on its own (line 105), each half becomes U+FFFD, and the frame and the
  relayed line carry two U+FFFD instead of the letter.
\<close>

theorem character_split_across_chunks:
  "map_sum id stdout
     (run node0 localhost [SseData (bytes ''data: '' @ [0x22, 0xC3, 0xA9, 0x22, 0x0A, 0x0A])]
        (active (lit ''abc123''))) = Inr [[0x22, 0xE9, 0x22, 0x0A]]
   \<and> map_sum id stdout
       (run node0 localhost
          [SseData (bytes ''data: '' @ [0x22, 0xC3]), SseData [0xA9, 0x22, 0x0A, 0x0A]]
          (active (lit ''abc123''))) = Inr [[0x22, 0xFFFD, 0xFFFD, 0x22, 0x0A]]
   \<and> map_sum id journal
       (run node0 localhost [SseData (bytes ''data: '' @ [0x22, 0xC3, 0xA9, 0x22, 0x0A, 0x0A])]
          (active (lit ''abc123''))) = Inr [Frame None [0x22, 0xE9, 0x22]]
   \<and> map_sum id journal
       (run node0 localhost
          [SseData (bytes ''data: '' @ [0x22, 0xC3]), SseData [0xA9, 0x22, 0x0A, 0x0A]]
          (active (lit ''abc123''))) = Inr [Frame None [0x22, 0xFFFD, 0xFFFD, 0x22]]"
  by (simp add: step_def handle_def on_data_def on_chunk_def pop_or_empty_def process_line_def
      startsWith_def effects concrete)

subsection \<open>The session id follows the stream\<close>

lemma session_after_append:
  "session_after env u sid (a @ b) = session_after env u (session_after env u sid a) b"
proof (induction a arbitrary: sid)
  case Nil
  then show ?case by simp
next
  case (Cons ob a)
  then show ?case by (cases ob) simp_all
qed

lemma session_after_snoc:
  "session_after env u sid (obs @ [StreamEnd]) = None"
  "session_after env u sid (obs @ [TransportError]) = None"
  "URL_sessionId env data (lit ''http://'' @ hostname u @ lit '':'' @ options_port u) = Param p \<Longrightarrow>
     session_after env u sid (obs @ [Frame (Some (lit ''endpoint'')) data]) = p"
  "ev \<noteq> Some (lit ''endpoint'') \<Longrightarrow>
     session_after env u sid (obs @ [Frame ev data]) = session_after env u sid obs"
  by (simp_all add: session_after_append)




lemma dispatcher_parser_fields [simp]:
  "buffer (line_catch env line msg st) = buffer st"
  "currentEvent (line_catch env line msg st) = currentEvent st"
  "buffer (line_begin env u line st) = buffer st"
  "currentEvent (line_begin env u line st) = currentEvent st"
  "buffer (settle k out st) = buffer st"
  "currentEvent (settle k out st) = currentEvent st"
  by (simp_all add: line_catch_def line_begin_def sendMessage_def settle_def effects Let_def
      split: sum.splits option.splits)

lemma resume_parser_fields [simp]:
  "buffer (resume env i st) = buffer st"
  "currentEvent (resume env i st) = currentEvent st"
  by (simp_all add: resume_def line_resume_def split: prod.splits awaited.splits outcome.splits)







end
